theory Spec2Isabelle
  imports Main "HOL-Library.Sublist"
begin

section \<open>The plugin of \<^verbatim>\<open>index.js\<close>: data\<close>

text \<open>
  The plugin keeps one \<^verbatim>\<open>options\<close> object per schema (the closure variable of
  \<^verbatim>\<open>module.exports\<close>). A property that may be undefined is an \<open>option\<close>; the
  objects built by \<^verbatim>\<open>new\<close> are references, numbered in the order they are built.
\<close>

datatype js_error = TypeError | Thrown string

record es_error =
  message :: string

record bulk_options =
  batch :: "int option"

datatype bulker_obj = Bulker (ref: nat) (bulker_client: "nat option") (bulker_options: "bulk_options option")

datatype mapping_obj = Mapping (properties: string)

record plugin_options =
  opt_index :: "string option"
  opt_type :: "string option"
  opt_client :: "nat option"
  opt_bulk :: "bulk_options option"
  opt_bulker :: "bulker_obj option"
  opt_mapping :: "mapping_obj option"

record document =
  doc_id :: string
  doc_source :: string

text \<open>
  The receiver \<^verbatim>\<open>this\<close> of \<^verbatim>\<open>esOptions\<close>: a model has a collection (with its name), a
  model name and a schema; the object \<^verbatim>\<open>schema.statics\<close> has none of them, only the
  five functions that lines 41 to 45 store in it.
\<close>

record receiver =
  collection :: "string option"
  modelName :: "string option"
  schema :: "string option"

definition statics :: receiver where
  "statics = \<lparr>collection = None, modelName = None, schema = None\<rparr>"

text \<open>
  The functions of \<^verbatim>\<open>lib/utils\<close>, \<^verbatim>\<open>lib/client\<close> and \<^verbatim>\<open>lib/mapping\<close> that
  \<^verbatim>\<open>index.js\<close> calls are parameters: each may throw.
\<close>

record externals =
  lcFirst :: "string option \<Rightarrow> js_error + string"
  client :: "plugin_options \<Rightarrow> nat"
  generateMapping :: "string option \<Rightarrow> js_error + string"
  serialize :: "document \<Rightarrow> mapping_obj option \<Rightarrow> string"

record plugin_state =
  options :: plugin_options
  allocated :: nat

subsection \<open>esOptions (lines 16 to 39)\<close>

text \<open>\<^verbatim>\<open>!x\<close> for a property that is a string or undefined: the empty string is falsy too.\<close>

definition falsy :: "string option \<Rightarrow> bool" where
  "falsy x = (case x of None \<Rightarrow> True | Some s \<Rightarrow> s = [])"

text \<open>
  Lines 17 to 19. \<^verbatim>\<open>this.collection.name\<close> throws a TypeError when
  \<^verbatim>\<open>this.collection\<close> is undefined.
\<close>

definition default_index :: "receiver \<Rightarrow> plugin_options \<Rightarrow> js_error + plugin_options" where
  "default_index this opts =
     (if falsy (opt_index opts) then
        (case collection this of
           None \<Rightarrow> Inl TypeError
         | Some name \<Rightarrow> Inr (opts\<lparr>opt_index := Some name\<rparr>))
      else Inr opts)"

text \<open>Lines 20 to 22.\<close>

definition default_type :: "externals \<Rightarrow> receiver \<Rightarrow> plugin_options \<Rightarrow> js_error + plugin_options" where
  "default_type ext this opts =
     (if falsy (opt_type opts) then
        (case lcFirst ext (modelName this) of
           Inl e \<Rightarrow> Inl e
         | Inr t \<Rightarrow> Inr (opts\<lparr>opt_type := Some t\<rparr>))
      else Inr opts)"

text \<open>Lines 24 to 26.\<close>

definition default_client :: "externals \<Rightarrow> plugin_options \<Rightarrow> plugin_options" where
  "default_client ext opts =
     (case opt_client opts of
        None \<Rightarrow> opts\<lparr>opt_client := Some (client ext opts)\<rparr>
      | Some c \<Rightarrow> opts)"

text \<open>
  Lines 28 to 30: the test is on \<^verbatim>\<open>options.bulk\<close>, and \<^verbatim>\<open>new Bulker\<close> builds an object
  that did not exist before: its reference is the number of objects built so far.
  (\<^verbatim>\<open>options.client\<close> is set by then.)
\<close>

definition new_Bulker :: "nat option \<Rightarrow> bulk_options option \<Rightarrow> nat \<Rightarrow> bulker_obj \<times> nat" where
  "new_Bulker c b n = (Bulker n c b, Suc n)"

definition make_bulker :: "plugin_options \<Rightarrow> nat \<Rightarrow> plugin_options \<times> nat" where
  "make_bulker opts n =
     (case opt_bulk opts of
        Some b \<Rightarrow>
          (case new_Bulker (opt_client opts) (Some b) n of
             (bk, n') \<Rightarrow> (opts\<lparr>opt_bulker := Some bk\<rparr>, n'))
      | None \<Rightarrow> (opts, n))"

text \<open>Lines 32 to 36.\<close>

definition default_mapping :: "externals \<Rightarrow> receiver \<Rightarrow> plugin_options \<Rightarrow> js_error + plugin_options" where
  "default_mapping ext this opts =
     (case opt_mapping opts of
        None \<Rightarrow>
          (case generateMapping ext (schema this) of
             Inl e \<Rightarrow> Inl e
           | Inr props \<Rightarrow> Inr (opts\<lparr>opt_mapping := Some (Mapping props)\<rparr>))
      | Some m \<Rightarrow> Inr opts)"

text \<open>
  \<^verbatim>\<open>utils.highClone\<close> copies the first level of the object (the comment of line 8): the
  copy has the same property values, the same Bulker reference among them.
\<close>

definition highClone :: "plugin_options \<Rightarrow> plugin_options" where
  "highClone opts = opts"

text \<open>
  The whole function: the options returned, and the plugin's state after the call. A
  throw leaves no result; what the code has stored in the options before it throws is
  not kept here, and nothing below reads the state after a throw.
\<close>

definition esOptions :: "externals \<Rightarrow> receiver \<Rightarrow> plugin_state \<Rightarrow> js_error + (plugin_options \<times> plugin_state)" where
  "esOptions ext this st =
     (case default_index this (options st) of
        Inl e \<Rightarrow> Inl e
      | Inr o1 \<Rightarrow>
     (case default_type ext this o1 of
        Inl e \<Rightarrow> Inl e
      | Inr o2 \<Rightarrow>
     (case make_bulker (default_client ext o2) (allocated st) of
        (o4, n) \<Rightarrow>
     (case default_mapping ext this o4 of
        Inl e \<Rightarrow> Inl e
      | Inr o5 \<Rightarrow> Inr (highClone o5, \<lparr>options = o5, allocated = n\<rparr>)))))"

section \<open>The retryable delete (lines 278 to 314)\<close>

text \<open>
  \<^verbatim>\<open>String.prototype.indexOf\<close>: the first position where the pattern starts, or -1.
\<close>

fun indexOf_from :: "string \<Rightarrow> string \<Rightarrow> nat \<Rightarrow> int" where
  "indexOf_from [] pat i = (if pat = [] then int i else - 1)"
| "indexOf_from (c # cs) pat i =
     (if prefix pat (c # cs) then int i else indexOf_from cs pat (Suc i))"

definition indexOf :: "string \<Rightarrow> string \<Rightarrow> int" where
  "indexOf s pat = indexOf_from s pat 0"

text \<open>
  What one call of \<^verbatim>\<open>deleteByMongoId\<close> does, in order: the delete requests sent to the
  index engine, the timers set, and the calls of \<^verbatim>\<open>callback\<close>.
\<close>

datatype delete_effect =
    ClientDelete "string option" "string option" string
  | SetTimeout nat
  | Callback "es_error option"

text \<open>
  The index engine is the environment: \<open>engine n\<close> is the error that the \<open>n\<close>-th delete
  request gives to its callback (\<open>None\<close>: no error). \<open>n\<close> counts the requests already
  sent. \<^verbatim>\<open>retry && retry > 0\<close> on a number is \<open>retry \<noteq> 0 \<and> 0 < retry\<close>.
\<close>

function deleteByMongoId ::
  "(nat \<Rightarrow> es_error option) \<Rightarrow> nat \<Rightarrow> plugin_options \<Rightarrow> document \<Rightarrow> int \<Rightarrow> delete_effect list" where
  "deleteByMongoId engine n opts doc retry =
     ClientDelete (opt_index opts) (opt_type opts) (doc_id doc) #
     (case engine n of
        Some err \<Rightarrow>
          if - 1 < indexOf (message err) ''404'' then
            if retry \<noteq> 0 \<and> 0 < retry then
              SetTimeout 500 # deleteByMongoId engine (Suc n) opts doc (retry - 1)
            else [Callback (Some err)]
          else [Callback (Some err)]
      | None \<Rightarrow> [Callback None])"
  by pat_completeness auto
termination
  by (relation "measure (\<lambda>(engine, n, opts, doc, retry). nat retry)") auto

text \<open>
  \<^verbatim>\<open>removeDoc\<close> (lines 278 to 283) is a method of a document: it asks
  \<^verbatim>\<open>this.schema.statics.esOptions()\<close>, so the receiver of \<^verbatim>\<open>esOptions\<close> is the object
  \<^verbatim>\<open>schema.statics\<close>, and starts the delete with 3 retries. Its callback is
  \<^verbatim>\<open>defer.callback\<close>.
\<close>

definition removeDoc ::
  "externals \<Rightarrow> (nat \<Rightarrow> es_error option) \<Rightarrow> document \<Rightarrow> plugin_state \<Rightarrow>
     js_error + (delete_effect list \<times> plugin_state)" where
  "removeDoc ext engine this st =
     (case esOptions ext statics st of
        Inl e \<Rightarrow> Inl e
      | Inr (esOpts, st') \<Rightarrow> Inr (deleteByMongoId engine 0 esOpts this 3, st'))"

text \<open>Reading a trace: the requests, the timers and the callbacks in it.\<close>

fun is_delete :: "delete_effect \<Rightarrow> bool" where
  "is_delete (ClientDelete i t k) = True"
| "is_delete e = False"

fun is_callback :: "delete_effect \<Rightarrow> bool" where
  "is_callback (Callback r) = True"
| "is_callback e = False"

fun is_timeout :: "delete_effect \<Rightarrow> bool" where
  "is_timeout (SetTimeout ms) = True"
| "is_timeout e = False"

text \<open>
  The test of line 301, \<^verbatim>\<open>err && err.message.indexOf('404') > -1\<close>, on what a delete
  request gave to its callback.
\<close>

definition reports_not_found :: "es_error option \<Rightarrow> bool" where
  "reports_not_found r =
     (case r of None \<Rightarrow> False | Some err \<Rightarrow> - 1 < indexOf (message err) ''404'')"

text \<open>The engine that reports "not found" \<open>K\<close> times and then succeeds.\<close>

definition not_found :: es_error where
  "not_found = \<lparr>message = ''[404] Not Found''\<rparr>"

definition missing_until :: "nat \<Rightarrow> nat \<Rightarrow> es_error option" where
  "missing_until K n = (if n < K then Some not_found else None)"

definition unavailable :: es_error where
  "unavailable = \<lparr>message = ''[503] Service Unavailable''\<rparr>"

text \<open>One round of the retry: the request, then the timer.\<close>

definition retry_round :: "plugin_options \<Rightarrow> document \<Rightarrow> delete_effect list" where
  "retry_round opts doc = [ClientDelete (opt_index opts) (opt_type opts) (doc_id doc), SetTimeout 500]"

text \<open>
  Sample values: stand-ins for the functions of \<^verbatim>\<open>lib\<close>, options as a first call of
  \<^verbatim>\<open>esOptions\<close> on a model leaves them, and a document.
\<close>

definition sample_ext :: externals where
  "sample_ext = \<lparr>lcFirst = (\<lambda>x. case x of None \<Rightarrow> Inl TypeError | Some s \<Rightarrow> Inr s),
                  client = (\<lambda>opts. 7),
                  generateMapping = (\<lambda>x. case x of None \<Rightarrow> Inl TypeError | Some s \<Rightarrow> Inr s),
                  serialize = (\<lambda>d m. doc_source d)\<rparr>"

definition no_options :: plugin_options where
  "no_options = \<lparr>opt_index = None, opt_type = None, opt_client = None, opt_bulk = None,
                  opt_bulker = None, opt_mapping = None\<rparr>"

definition user_options :: plugin_options where
  "user_options = \<lparr>opt_index = Some ''users'', opt_type = Some ''user'', opt_client = Some 7,
                    opt_bulk = None, opt_bulker = None, opt_mapping = Some (Mapping ''name'')\<rparr>"

definition user_doc :: document where
  "user_doc = \<lparr>doc_id = ''5a1b'', doc_source = ''john''\<rparr>"

section \<open>The hooks (lines 255 to 270 and 321 to 340)\<close>

text \<open>
  \<^verbatim>\<open>indexDoc\<close> (the method \<^verbatim>\<open>esIndex\<close>) asks \<^verbatim>\<open>this.schema.statics.esOptions()\<close> as
  \<^verbatim>\<open>removeDoc\<close> does, then sends one index request; its callback is \<^verbatim>\<open>defer.callback\<close>.
\<close>

datatype index_effect = ClientIndex "string option" "string option" string string

definition indexDoc ::
  "externals \<Rightarrow> document \<Rightarrow> plugin_state \<Rightarrow> js_error + (index_effect list \<times> plugin_state)" where
  "indexDoc ext this st =
     (case esOptions ext statics st of
        Inl e \<Rightarrow> Inl e
      | Inr (esOpts, st') \<Rightarrow>
          Inr ([ClientIndex (opt_index esOpts) (opt_type esOpts) (doc_id this)
                  (serialize ext this (opt_mapping esOpts))], st'))"

text \<open>
  \<^verbatim>\<open>postSave\<close> and \<^verbatim>\<open>postRemove\<close>: nothing for a null document, else the method of the
  document. The callback they pass emits \<^verbatim>\<open>es-indexed\<close> or \<^verbatim>\<open>es-removed\<close> on the
  document, with the error and the result it got.
\<close>

datatype doc_event =
    EsIndexed "es_error option" "string option"
  | EsRemoved "es_error option" "string option"

definition postSave ::
  "externals \<Rightarrow> document option \<Rightarrow> plugin_state \<Rightarrow> js_error + (index_effect list \<times> plugin_state)" where
  "postSave ext doc st =
     (case doc of
        None \<Rightarrow> Inr ([], st)
      | Some d \<Rightarrow> indexDoc ext d st)"

definition postSave_callback :: "es_error option \<Rightarrow> string option \<Rightarrow> doc_event list" where
  "postSave_callback err res = [EsIndexed err res]"

definition postRemove ::
  "externals \<Rightarrow> (nat \<Rightarrow> es_error option) \<Rightarrow> document option \<Rightarrow> plugin_state \<Rightarrow>
     js_error + (delete_effect list \<times> plugin_state)" where
  "postRemove ext engine doc st =
     (case doc of
        None \<Rightarrow> Inr ([], st)
      | Some d \<Rightarrow> removeDoc ext engine d st)"

definition postRemove_callback :: "es_error option \<Rightarrow> string option \<Rightarrow> doc_event list" where
  "postRemove_callback err res = [EsRemoved err res]"

section \<open>synchronize (lines 175 to 247)\<close>

text \<open>
  The controller talks to three objects: the record stream, the Bulker and the schema
  (its notifications). What it does to them is kept as a list of effects, in order. Of
  the state it reads, \<^verbatim>\<open>streamClosed\<close> is its own variable; whether the stream is
  paused, which listeners the Bulker holds and how many refresh calls have not yet
  returned belong to the objects, and change only by the controller's calls.
\<close>

datatype notification = EsBulkData document | EsBulkSent nat | EsBulkError es_error

record operation =
  op_index :: "string option"
  op_type :: "string option"
  op_id :: string
  op_body :: string

datatype effect =
    StreamOpen int
  | StreamPause
  | StreamResume
  | BulkerOn string
  | BulkerRemoveListener string
  | BulkerPush operation
  | BulkerFlush
  | Emit notification
  | IndicesRefresh "string option"

datatype outcome = Pending | Resolved | Rejected es_error

record sync_state =
  paused :: bool
  streamClosed :: bool
  onError_listening :: bool
  onSent_listening :: bool
  refreshing :: nat
  promise :: outcome
  effects :: "effect list"

text \<open>
  Modelled from the spec: \<^verbatim>\<open>utils.defer\<close> of \<^verbatim>\<open>lib/utils\<close>, which is not among the
  sources. The spec says that finalize resolves or rejects the overall operation based on
  the refresh call's outcome; \<^verbatim>\<open>defer.callback\<close> is the callback given to that call. An
  outcome, once settled, stays.
\<close>

definition defer_callback :: "es_error option \<Rightarrow> outcome \<Rightarrow> outcome" where
  "defer_callback err p =
     (case p of
        Pending \<Rightarrow> (case err of None \<Rightarrow> Resolved | Some e \<Rightarrow> Rejected e)
      | Resolved \<Rightarrow> Resolved
      | Rejected e \<Rightarrow> Rejected e)"

definition do_effect :: "effect \<Rightarrow> sync_state \<Rightarrow> sync_state" where
  "do_effect e s = s\<lparr>effects := effects s @ [e]\<rparr>"

definition stream_pause :: "sync_state \<Rightarrow> sync_state" where
  "stream_pause s = do_effect StreamPause (s\<lparr>paused := True\<rparr>)"

definition stream_resume :: "sync_state \<Rightarrow> sync_state" where
  "stream_resume s = do_effect StreamResume (s\<lparr>paused := False\<rparr>)"

text \<open>Line 193: the read batch size of the stream.\<close>

definition stream_batch :: "plugin_options \<Rightarrow> int" where
  "stream_batch esOpts =
     (case opt_bulk esOpts of
        None \<Rightarrow> 50
      | Some b \<Rightarrow> (case batch b of None \<Rightarrow> 50 | Some n \<Rightarrow> if n = 0 then 50 else n))"

text \<open>Lines 198 to 202.\<close>

definition finalize :: "plugin_options \<Rightarrow> sync_state \<Rightarrow> sync_state" where
  "finalize esOpts s =
     (let s1 = do_effect (BulkerRemoveListener ''error'') (s\<lparr>onError_listening := False\<rparr>);
          s2 = do_effect (BulkerRemoveListener ''sent'') (s1\<lparr>onSent_listening := False\<rparr>)
      in do_effect (IndicesRefresh (opt_index esOpts)) (s2\<lparr>refreshing := Suc (refreshing s2)\<rparr>))"

text \<open>Lines 204 to 211.\<close>

definition onError :: "plugin_options \<Rightarrow> es_error \<Rightarrow> sync_state \<Rightarrow> sync_state" where
  "onError esOpts err s =
     (let s1 = do_effect (Emit (EsBulkError err)) s
      in if streamClosed s1 then finalize esOpts s1 else stream_resume s1)"

text \<open>Lines 213 to 220.\<close>

definition onSent :: "plugin_options \<Rightarrow> nat \<Rightarrow> sync_state \<Rightarrow> sync_state" where
  "onSent esOpts len s =
     (let s1 = do_effect (Emit (EsBulkSent len)) s
      in if streamClosed s1 then finalize esOpts s1 else stream_resume s1)"

text \<open>
  Lines 225 to 235, the handler of the stream's \<^verbatim>\<open>data\<close> event. The two arguments of
  \<^verbatim>\<open>bulker.push\<close> make one operation. \<open>sending\<close> is what that call returned, read as
  line 232 reads it (its truth value).
\<close>

definition index_operation :: "externals \<Rightarrow> plugin_options \<Rightarrow> document \<Rightarrow> operation" where
  "index_operation ext esOpts doc =
     \<lparr>op_index = opt_index esOpts, op_type = opt_type esOpts, op_id = doc_id doc,
      op_body = serialize ext doc (opt_mapping esOpts)\<rparr>"

definition on_data :: "externals \<Rightarrow> plugin_options \<Rightarrow> document \<Rightarrow> bool \<Rightarrow> sync_state \<Rightarrow> sync_state" where
  "on_data ext esOpts doc sending s =
     (let s1 = stream_pause s;
          s2 = do_effect (BulkerPush (index_operation ext esOpts doc)) s1;
          s3 = do_effect (Emit (EsBulkData doc)) s2
      in if \<not> sending then stream_resume s3 else s3)"

text \<open>
  Lines 237 to 244, the handler of the stream's \<^verbatim>\<open>close\<close> event. \<open>filled\<close> is what
  \<^verbatim>\<open>bulker.filled()\<close> returned.
\<close>

definition on_close :: "plugin_options \<Rightarrow> bool \<Rightarrow> sync_state \<Rightarrow> sync_state" where
  "on_close esOpts filled s =
     (let s1 = s\<lparr>streamClosed := True\<rparr>
      in if filled then do_effect BulkerFlush s1 else finalize esOpts s1)"

text \<open>
  Lines 190 to 196 and 222 to 246: what \<^verbatim>\<open>synchronize\<close> has done when it returns. The
  stream is open and flowing, both listeners are on the Bulker. The Bulker is the one of
  the options, or a new one when they have none. (Lines 176 to 188 only sort the
  arguments of the query; the query is not modelled.)
\<close>

definition listening :: "plugin_options \<Rightarrow> sync_state" where
  "listening esOpts =
     \<lparr>paused = False, streamClosed = False, onError_listening = True, onSent_listening = True,
      refreshing = 0, promise = Pending,
      effects = [StreamOpen (stream_batch esOpts), BulkerOn ''error'', BulkerOn ''sent'']\<rparr>"

record sync_call =
  call_options :: plugin_options
  call_bulker :: bulker_obj
  call_state :: sync_state

definition synchronize ::
  "externals \<Rightarrow> receiver \<Rightarrow> plugin_state \<Rightarrow> js_error + (sync_call \<times> plugin_state)" where
  "synchronize ext this st =
     (case esOptions ext this st of
        Inl e \<Rightarrow> Inl e
      | Inr (esOpts, st1) \<Rightarrow>
          (case (case opt_bulker esOpts of
                   Some bk \<Rightarrow> (bk, allocated st1)
                 | None \<Rightarrow> new_Bulker (opt_client esOpts) None (allocated st1)) of
             (bulker, n) \<Rightarrow>
               Inr (\<lparr>call_options = esOpts, call_bulker = bulker, call_state = listening esOpts\<rparr>,
                    st1\<lparr>allocated := n\<rparr>)))"

subsection \<open>The events the controller receives\<close>

text \<open>
  The environment calls the handlers. The stream emits a record only while it flows (not
  paused, not closed) and closes once; the Bulker calls the listeners it holds; the
  refresh callback comes only for a refresh call that was made. With a \<^verbatim>\<open>data\<close> event
  comes what \<^verbatim>\<open>push\<close> returned in its handler, with \<^verbatim>\<open>close\<close> what \<^verbatim>\<open>filled\<close> returned.
  \<open>None\<close>: the event cannot happen in that state.
\<close>

datatype event =
    StreamData document bool
  | StreamClose bool
  | BulkerSent nat
  | BulkerError es_error
  | RefreshDone "es_error option"

fun deliver :: "externals \<Rightarrow> plugin_options \<Rightarrow> event \<Rightarrow> sync_state \<Rightarrow> sync_state option" where
  "deliver ext esOpts (StreamData doc sending) s =
     (if paused s \<or> streamClosed s then None else Some (on_data ext esOpts doc sending s))"
| "deliver ext esOpts (StreamClose filled) s =
     (if streamClosed s then None else Some (on_close esOpts filled s))"
| "deliver ext esOpts (BulkerSent len) s =
     Some (if onSent_listening s then onSent esOpts len s else s)"
| "deliver ext esOpts (BulkerError err) s =
     Some (if onError_listening s then onError esOpts err s else s)"
| "deliver ext esOpts (RefreshDone r) s =
     (if refreshing s = 0 then None
      else Some (s\<lparr>refreshing := refreshing s - 1, promise := defer_callback r (promise s)\<rparr>))"

fun deliver_all :: "externals \<Rightarrow> plugin_options \<Rightarrow> event list \<Rightarrow> sync_state \<Rightarrow> sync_state option" where
  "deliver_all ext esOpts [] s = Some s"
| "deliver_all ext esOpts (e # es) s =
     (case deliver ext esOpts e s of
        None \<Rightarrow> None
      | Some s' \<Rightarrow> deliver_all ext esOpts es s')"

fun is_bulker_event :: "event \<Rightarrow> bool" where
  "is_bulker_event (BulkerSent len) = True"
| "is_bulker_event (BulkerError err) = True"
| "is_bulker_event e = False"

fun is_refresh :: "effect \<Rightarrow> bool" where
  "is_refresh (IndicesRefresh i) = True"
| "is_refresh e = False"


text \<open>The three calls of \<^verbatim>\<open>finalize\<close>.\<close>

definition finalize_effects :: "plugin_options \<Rightarrow> effect list" where
  "finalize_effects esOpts =
     [BulkerRemoveListener ''error'', BulkerRemoveListener ''sent'', IndicesRefresh (opt_index esOpts)]"

text \<open>A transport error of the bulk call.\<close>

definition refused :: es_error where
  "refused = \<lparr>message = ''connection refused''\<rparr>"

text \<open>
  Reading a state: the refresh calls made so far; both listeners on the Bulker, or none.
  \<open>once\<close> is the invariant of the controller: the listeners are on and no refresh call
  was made, or (only after the stream closed) they are off and one was made.
\<close>

definition refreshes :: "sync_state \<Rightarrow> nat" where
  "refreshes s = length (filter is_refresh (effects s))"

definition attached :: "sync_state \<Rightarrow> bool" where
  "attached s = (onError_listening s \<and> onSent_listening s)"

definition detached :: "sync_state \<Rightarrow> bool" where
  "detached s = (\<not> onError_listening s \<and> \<not> onSent_listening s)"

definition once :: "sync_state \<Rightarrow> bool" where
  "once s = (if streamClosed s then (attached s \<and> refreshes s = 0) \<or> (detached s \<and> refreshes s = 1)
             else attached s \<and> refreshes s = 0)"

text \<open>The notification that the listener of a Bulker event emits.\<close>

fun notice :: "event \<Rightarrow> effect list" where
  "notice (BulkerSent len) = [Emit (EsBulkSent len)]"
| "notice (BulkerError err) = [Emit (EsBulkError err)]"
| "notice e = []"

section \<open>The Bulk Queue and a whole run of synchronize\<close>

text \<open>
  Modelled from the spec: the Bulker of \<^verbatim>\<open>lib/bulker\<close>, which is not among the sources.
  The spec (Bulk Queue, sections 3 and 4.1): a pending batch bounded by a configured
  maximum size, 50 if unspecified; at most one dispatched batch in flight. \<^verbatim>\<open>push\<close>
  appends the operation and returns false when the pending batch has then reached its
  bound, true otherwise; when the bound is reached the batch is dispatched at once
  unless a dispatch is in flight, in which case it waits until that dispatch completes.
  \<^verbatim>\<open>flush\<close> forces the dispatch of the pending batch, and does nothing when the batch
  is empty and nothing is in flight. \<^verbatim>\<open>filled\<close> is true iff the pending batch is not
  empty. \<open>dispatched\<close> keeps every batch handed to the bulk call, in order.
\<close>

record bulk_queue =
  pending :: "operation list"
  inFlight :: "operation list option"
  forced :: bool
  bound :: nat
  dispatched :: "operation list list"

definition new_queue :: "nat option \<Rightarrow> bulk_queue" where
  "new_queue configured =
     \<lparr>pending = [], inFlight = None, forced = False,
      bound = (case configured of None \<Rightarrow> 50 | Some n \<Rightarrow> n), dispatched = []\<rparr>"

definition begin_dispatch :: "bulk_queue \<Rightarrow> bulk_queue" where
  "begin_dispatch q =
     q\<lparr>inFlight := Some (pending q), pending := [], forced := False,
       dispatched := dispatched q @ [pending q]\<rparr>"

definition push :: "operation \<Rightarrow> bulk_queue \<Rightarrow> bool \<times> bulk_queue" where
  "push x q =
     (let q1 = q\<lparr>pending := pending q @ [x]\<rparr>
      in if bound q1 \<le> length (pending q1)
         then (False, if inFlight q1 = None then begin_dispatch q1 else q1)
         else (True, q1))"

definition flush :: "bulk_queue \<Rightarrow> bulk_queue" where
  "flush q =
     (if inFlight q = None then (if pending q = [] then q else begin_dispatch q)
      else q\<lparr>forced := True\<rparr>)"

definition filled :: "bulk_queue \<Rightarrow> bool" where
  "filled q = (pending q \<noteq> [])"

text \<open>
  The bulk call in flight completes (the queue then emits \<^verbatim>\<open>sent\<close> with the size of that
  batch, or \<^verbatim>\<open>error\<close>): a batch that waited is dispatched.
\<close>

definition complete :: "bulk_queue \<Rightarrow> bulk_queue" where
  "complete q =
     (let q1 = q\<lparr>inFlight := None\<rparr>
      in if pending q1 \<noteq> [] \<and> (forced q1 \<or> bound q1 \<le> length (pending q1))
         then begin_dispatch q1
         else q1\<lparr>forced := False\<rparr>)"

text \<open>
  The result of \<^verbatim>\<open>push\<close> as the source reads it: line 227 names it \<^verbatim>\<open>sending\<close> and
  line 232 resumes the stream when it is false, so it is true when the push filled the
  batch and false otherwise. The runs below are runs of the handler against this result.
\<close>

definition push_sending :: "operation \<Rightarrow> bulk_queue \<Rightarrow> bool \<times> bulk_queue" where
  "push_sending x q = (case push x q of (accepted, q') \<Rightarrow> (\<not> accepted, q'))"

text \<open>
  Modelled from the spec: the queue that a Bulker starts with. Its bound is the
  configured maximum size, 50 when none is configured (spec, section 3); the Bulker of
  line 195 is built without options.
\<close>

definition queue_of :: "bulker_obj \<Rightarrow> bulk_queue" where
  "queue_of bk =
     new_queue (case bulker_options bk of
                  None \<Rightarrow> None
                | Some b \<Rightarrow> (case batch b of None \<Rightarrow> None | Some n \<Rightarrow> Some (nat n)))"

text \<open>
  One call of \<^verbatim>\<open>synchronize\<close> with its environment: the controller, the queue, the
  records the stream has still to emit, and the number of bulk calls that have returned.
  \<open>transport n\<close> is the error of the \<open>n\<close>-th bulk call (\<open>None\<close>: it succeeded),
  \<open>refreshed\<close> the error of the refresh call.
\<close>

record sys =
  ctl :: sync_state
  queue :: bulk_queue
  todo :: "document list"
  calls :: nat

record world =
  ext_of :: externals
  esOpts_of :: plugin_options
  transport :: "nat \<Rightarrow> es_error option"
  refreshed :: "es_error option"

text \<open>
  One turn of the event loop. A flowing stream emits its next record, or closes when it
  has none left: the handler runs, with the queue's answer. Otherwise the bulk call in
  flight returns and the queue emits \<^verbatim>\<open>sent\<close> or \<^verbatim>\<open>error\<close>; otherwise the refresh call
  returns. \<open>None\<close>: nothing is left to happen.
\<close>

definition step :: "world \<Rightarrow> sys \<Rightarrow> sys option" where
  "step w \<sigma> =
     (if \<not> paused (ctl \<sigma>) \<and> \<not> streamClosed (ctl \<sigma>) then
        (case todo \<sigma> of
           doc # rest \<Rightarrow>
             (case push_sending (index_operation (ext_of w) (esOpts_of w) doc) (queue \<sigma>) of
                (sending, q) \<Rightarrow>
                  Some (\<sigma>\<lparr>ctl := on_data (ext_of w) (esOpts_of w) doc sending (ctl \<sigma>),
                          queue := q, todo := rest\<rparr>))
         | [] \<Rightarrow>
             Some (\<sigma>\<lparr>ctl := on_close (esOpts_of w) (filled (queue \<sigma>)) (ctl \<sigma>),
                     queue := (if filled (queue \<sigma>) then flush (queue \<sigma>) else queue \<sigma>)\<rparr>))
      else
        (case inFlight (queue \<sigma>) of
           Some b \<Rightarrow>
             (case deliver (ext_of w) (esOpts_of w)
                     (case transport w (calls \<sigma>) of
                        None \<Rightarrow> BulkerSent (length b)
                      | Some err \<Rightarrow> BulkerError err) (ctl \<sigma>) of
                None \<Rightarrow> None
              | Some c \<Rightarrow>
                  Some (\<sigma>\<lparr>ctl := c, queue := complete (queue \<sigma>), calls := Suc (calls \<sigma>)\<rparr>))
         | None \<Rightarrow>
             (case deliver (ext_of w) (esOpts_of w) (RefreshDone (refreshed w)) (ctl \<sigma>) of
                None \<Rightarrow> None
              | Some c \<Rightarrow> Some (\<sigma>\<lparr>ctl := c\<rparr>))))"

fun run :: "world \<Rightarrow> nat \<Rightarrow> sys \<Rightarrow> sys" where
  "run w 0 \<sigma> = \<sigma>"
| "run w (Suc k) \<sigma> = (case step w \<sigma> of None \<Rightarrow> \<sigma> | Some \<sigma>' \<Rightarrow> run w k \<sigma>')"



text \<open>Sample values: a model as receiver, options with a bulk queue, a world whose second bulk call fails.\<close>

definition user_model :: receiver where
  "user_model = \<lparr>collection = Some ''users'', modelName = Some ''User'', schema = Some ''name''\<rparr>"

definition bulk_configured :: plugin_options where
  "bulk_configured = no_options\<lparr>opt_bulk := Some \<lparr>batch = Some 10\<rparr>\<rparr>"

definition zero_batch :: plugin_options where
  "zero_batch = no_options\<lparr>opt_bulk := Some \<lparr>batch = Some 0\<rparr>\<rparr>"





section \<open>Properties of the retryable delete\<close>

lemma indexOf_from_sublist: "(- 1 < indexOf_from s pat i) = sublist pat s"
  by (induction s arbitrary: i) (auto simp: sublist_Cons_right)

lemma indexOf_sublist: "(- 1 < indexOf s pat) = sublist pat s"
  by (simp add: indexOf_def indexOf_from_sublist)

lemma not_found_404: "reports_not_found (Some not_found)"
  by (simp add: reports_not_found_def not_found_def indexOf_def)

declare deleteByMongoId.simps [simp del]

lemma delete_not_found_retry:
  "reports_not_found (engine n) \<Longrightarrow> 0 < retry \<Longrightarrow>
   deleteByMongoId engine n opts doc retry =
     retry_round opts doc @ deleteByMongoId engine (Suc n) opts doc (retry - 1)"
  by (subst deleteByMongoId.simps)
     (auto simp: reports_not_found_def retry_round_def split: option.splits)

lemma delete_not_found_exhausted:
  "reports_not_found (engine n) \<Longrightarrow> retry \<le> 0 \<Longrightarrow>
   deleteByMongoId engine n opts doc retry =
     [ClientDelete (opt_index opts) (opt_type opts) (doc_id doc), Callback (engine n)]"
  by (subst deleteByMongoId.simps)
     (auto simp: reports_not_found_def split: option.splits)

lemma delete_other:
  "\<not> reports_not_found (engine n) \<Longrightarrow>
   deleteByMongoId engine n opts doc retry =
     [ClientDelete (opt_index opts) (opt_type opts) (doc_id doc), Callback (engine n)]"
  by (subst deleteByMongoId.simps)
     (auto simp: reports_not_found_def split: option.splits)

lemma delete_resolves:
  "\<forall>i<K. reports_not_found (engine (n + i)) \<Longrightarrow> engine (n + K) = None \<Longrightarrow> K \<le> M \<Longrightarrow>
   deleteByMongoId engine n opts doc (int M) =
     concat (replicate K (retry_round opts doc)) @
     [ClientDelete (opt_index opts) (opt_type opts) (doc_id doc), Callback None]"
proof (induction K arbitrary: n M)
  case 0
  then have "\<not> reports_not_found (engine n)"
    by (simp add: reports_not_found_def)
  then show ?case
    using 0 by (simp add: delete_other)
next
  case (Suc K)
  then obtain M' where M: "M = Suc M'" and le: "K \<le> M'"
    by (cases M) auto
  have first: "reports_not_found (engine n)"
    using Suc.prems(1) by force
  have rest: "\<forall>i<K. reports_not_found (engine (Suc n + i))"
    using Suc.prems(1) by force
  have "deleteByMongoId engine (Suc n) opts doc (int M') =
     concat (replicate K (retry_round opts doc)) @
     [ClientDelete (opt_index opts) (opt_type opts) (doc_id doc), Callback None]"
    using Suc.IH [OF rest _ le] Suc.prems(2) by simp
  then show ?case
    using M first by (simp add: delete_not_found_retry)
qed

lemma delete_fails:
  "\<forall>i<K. reports_not_found (engine (n + i)) \<Longrightarrow> M < K \<Longrightarrow>
   deleteByMongoId engine n opts doc (int M) =
     concat (replicate M (retry_round opts doc)) @
     [ClientDelete (opt_index opts) (opt_type opts) (doc_id doc), Callback (engine (n + M))]"
proof (induction M arbitrary: n K)
  case 0
  then have "reports_not_found (engine n)"
    by force
  then show ?case
    by (simp add: delete_not_found_exhausted)
next
  case (Suc M)
  then obtain K' where K: "K = Suc K'" and lt: "M < K'"
    by (cases K) auto
  have first: "reports_not_found (engine n)"
    using Suc.prems by force
  have rest: "\<forall>i<K'. reports_not_found (engine (Suc n + i))"
    using Suc.prems(1) K by force
  have "deleteByMongoId engine (Suc n) opts doc (int M) =
     concat (replicate M (retry_round opts doc)) @
     [ClientDelete (opt_index opts) (opt_type opts) (doc_id doc), Callback (engine (Suc n + M))]"
    using Suc.IH [OF rest lt] .
  then show ?case
    using first by (simp add: delete_not_found_retry)
qed

text \<open>
  Every call is some rounds of request and timer, no more than the budget, then one last
  request and one call of the callback. The induction follows the recursion of the
  function: the budget of the inner call is one less.
\<close>

lemma delete_shape:
  "\<exists>k r. int k \<le> max 0 retry \<and>
     deleteByMongoId engine n opts doc retry =
       concat (replicate k (retry_round opts doc)) @
       [ClientDelete (opt_index opts) (opt_type opts) (doc_id doc), Callback r]"
proof (induction engine n opts doc retry rule: deleteByMongoId.induct)
  case (1 engine n opts doc retry)
  show ?case
  proof (cases "reports_not_found (engine n) \<and> 0 < retry")
    case True
    then obtain err where e: "engine n = Some err" "- 1 < indexOf (message err) ''404''"
      by (auto simp: reports_not_found_def split: option.splits)
    obtain k r where k: "int k \<le> max 0 (retry - 1)"
      and t: "deleteByMongoId engine (Suc n) opts doc (retry - 1) =
       concat (replicate k (retry_round opts doc)) @
       [ClientDelete (opt_index opts) (opt_type opts) (doc_id doc), Callback r]"
      using "1.IH" [OF e] True by auto
    have "int (Suc k) \<le> max 0 retry"
      using k True by simp
    moreover have "deleteByMongoId engine n opts doc retry =
       concat (replicate (Suc k) (retry_round opts doc)) @
       [ClientDelete (opt_index opts) (opt_type opts) (doc_id doc), Callback r]"
      using True t by (simp add: delete_not_found_retry)
    ultimately show ?thesis by blast
  next
    case False
    then have "deleteByMongoId engine n opts doc retry =
       concat (replicate 0 (retry_round opts doc)) @
       [ClientDelete (opt_index opts) (opt_type opts) (doc_id doc), Callback (engine n)]"
      using delete_other [of engine n opts doc retry]
        delete_not_found_exhausted [of engine n retry opts doc] by fastforce
    moreover have "int 0 \<le> max 0 retry" by simp
    ultimately show ?thesis by blast
  qed
qed

lemma filter_rounds:
  "filter is_delete (concat (replicate k (retry_round opts doc))) =
     replicate k (ClientDelete (opt_index opts) (opt_type opts) (doc_id doc))"
  "filter is_callback (concat (replicate k (retry_round opts doc))) = []"
  "filter is_timeout (concat (replicate k (retry_round opts doc))) = replicate k (SetTimeout 500)"
  by (induction k) (simp_all add: retry_round_def)

text \<open>
  Claim C10. For every retry budget \<open>R \<ge> 0\<close> the recursive delete returns: it is some
  rounds (a request, then the timer of 500 ms), at most \<open>R\<close> of them, followed by one last
  request and one call of the callback. So at most \<open>R + 1\<close> requests are sent and the
  callback is called exactly once, as the last thing done. That the function is total is
  its termination proof: the measure is the retry argument, one less in the inner call.
\<close>

theorem retryable_delete_terminates:
  "0 \<le> R \<Longrightarrow>
   (\<exists>k r. k \<le> nat R \<and>
      deleteByMongoId engine n opts doc R =
        concat (replicate k (retry_round opts doc)) @
        [ClientDelete (opt_index opts) (opt_type opts) (doc_id doc), Callback r]) \<and>
   length (filter is_delete (deleteByMongoId engine n opts doc R)) \<le> nat R + 1 \<and>
   length (filter is_callback (deleteByMongoId engine n opts doc R)) = 1 \<and>
   is_callback (last (deleteByMongoId engine n opts doc R))"
proof -
  assume R: "0 \<le> R"
  obtain k r where k: "int k \<le> max 0 R"
    and t: "deleteByMongoId engine n opts doc R =
       concat (replicate k (retry_round opts doc)) @
       [ClientDelete (opt_index opts) (opt_type opts) (doc_id doc), Callback r]"
    using delete_shape by blast
  have kR: "k \<le> nat R"
    using k R by simp
  show ?thesis
    using kR t by (auto simp: filter_rounds)
qed

theorem retryable_delete_terminates_witness:
  "(0::int) \<le> 3 \<and>
   length (filter is_delete (deleteByMongoId (missing_until 5) 0 user_options user_doc 3)) \<le> 4 \<and>
   length (filter is_callback (deleteByMongoId (missing_until 5) 0 user_options user_doc 3)) = 1 \<and>
   is_callback (last (deleteByMongoId (missing_until 5) 0 user_options user_doc 3))"
  using retryable_delete_terminates [of 3 "missing_until 5" 0 user_options user_doc]
  by simp

text \<open>
  Claim C4. Let the engine report "not found" for its first \<open>K\<close> delete requests and
  succeed on the next one. A call with \<open>M \<ge> K\<close> retries is \<open>K\<close> rounds (a request, then a
  timer of 500 ms) and a last request whose callback gets no error: it resolves after
  \<open>K\<close> retries. A call with \<open>M < K\<close> retries is \<open>M\<close> rounds and a last request whose
  "not found" error goes to the callback: it fails after exactly \<open>M\<close> retries. The timer
  of 500 ms stands between any two requests. \<^verbatim>\<open>removeDoc\<close> (the method \<^verbatim>\<open>esRemove\<close>),
  once \<^verbatim>\<open>esOptions\<close> has returned, runs this delete with 3 retries.
\<close>

theorem retryable_delete_K_not_found:
  assumes nf: "\<forall>i<K. reports_not_found (engine i)" and ok: "engine K = None"
  shows "(K \<le> M \<longrightarrow>
            deleteByMongoId engine 0 opts doc (int M) =
              concat (replicate K (retry_round opts doc)) @
              [ClientDelete (opt_index opts) (opt_type opts) (doc_id doc), Callback None]) \<and>
         (M < K \<longrightarrow>
            deleteByMongoId engine 0 opts doc (int M) =
              concat (replicate M (retry_round opts doc)) @
              [ClientDelete (opt_index opts) (opt_type opts) (doc_id doc), Callback (engine M)] \<and>
            reports_not_found (engine M)) \<and>
         retry_round opts doc =
           [ClientDelete (opt_index opts) (opt_type opts) (doc_id doc), SetTimeout 500] \<and>
         (esOptions ext statics st = Inr (esOpts, st') \<longrightarrow>
            removeDoc ext engine doc st =
              Inr (concat (replicate (min K 3) (retry_round esOpts doc)) @
                   [ClientDelete (opt_index esOpts) (opt_type esOpts) (doc_id doc),
                    Callback (if K \<le> 3 then None else engine 3)], st'))"
proof -
  have a: "K \<le> M \<Longrightarrow> deleteByMongoId engine 0 opts doc (int M) =
              concat (replicate K (retry_round opts doc)) @
              [ClientDelete (opt_index opts) (opt_type opts) (doc_id doc), Callback None]" for M opts
    using delete_resolves [of K engine 0 M opts doc] nf ok by simp
  have b: "M < K \<Longrightarrow> deleteByMongoId engine 0 opts doc (int M) =
              concat (replicate M (retry_round opts doc)) @
              [ClientDelete (opt_index opts) (opt_type opts) (doc_id doc), Callback (engine M)]" for M opts
    using delete_fails [of K engine 0 M opts doc] nf by simp
  have c: "deleteByMongoId engine 0 esOpts doc 3 =
             concat (replicate (min K 3) (retry_round esOpts doc)) @
             [ClientDelete (opt_index esOpts) (opt_type esOpts) (doc_id doc),
              Callback (if K \<le> 3 then None else engine 3)]"
  proof (cases "K \<le> 3")
    case True
    then show ?thesis using a [of 3 esOpts] by (simp add: min_def)
  next
    case False
    then show ?thesis using b [of 3 esOpts] by (simp add: min_def)
  qed
  show ?thesis
    using a [of M opts] b [of M opts] c nf
    by (simp add: retry_round_def removeDoc_def)
qed

theorem retryable_delete_K_not_found_witness:
  "reports_not_found (missing_until 2 0) \<and> reports_not_found (missing_until 2 1) \<and>
   missing_until 2 2 = None \<and>
   deleteByMongoId (missing_until 2) 0 user_options user_doc 3 =
     [ClientDelete (Some ''users'') (Some ''user'') ''5a1b'', SetTimeout 500,
      ClientDelete (Some ''users'') (Some ''user'') ''5a1b'', SetTimeout 500,
      ClientDelete (Some ''users'') (Some ''user'') ''5a1b'', Callback None] \<and>
   deleteByMongoId (missing_until 2) 0 user_options user_doc 1 =
     [ClientDelete (Some ''users'') (Some ''user'') ''5a1b'', SetTimeout 500,
      ClientDelete (Some ''users'') (Some ''user'') ''5a1b'', Callback (Some not_found)]"
proof -
  have nf: "\<forall>i<2. reports_not_found (missing_until 2 i)"
    by (simp add: missing_until_def not_found_404)
  have ok: "missing_until 2 2 = None"
    by (simp add: missing_until_def)
  have m1: "missing_until 2 1 = Some not_found"
    by (simp add: missing_until_def)
  have r3: "deleteByMongoId (missing_until 2) 0 user_options user_doc (int 3) =
      concat (replicate 2 (retry_round user_options user_doc)) @
      [ClientDelete (opt_index user_options) (opt_type user_options) (doc_id user_doc),
       Callback None]"
    using retryable_delete_K_not_found [OF nf ok, of 3 user_options user_doc] by simp
  have r1: "deleteByMongoId (missing_until 2) 0 user_options user_doc (int 1) =
      concat (replicate 1 (retry_round user_options user_doc)) @
      [ClientDelete (opt_index user_options) (opt_type user_options) (doc_id user_doc),
       Callback (missing_until 2 1)]"
    using retryable_delete_K_not_found [OF nf ok, of 1 user_options user_doc] by simp
  have h: "reports_not_found (missing_until 2 0)" "reports_not_found (missing_until 2 1)"
    using nf by simp_all
  show ?thesis
    using r3 r1 [unfolded m1] h ok
    by (simp add: retry_round_def user_options_def user_doc_def numeral_2_eq_2)
qed

text \<open>
  Claim C5. Let a delete request fail with the error \<open>err\<close>. If the message of \<open>err\<close>
  does not contain \<^verbatim>\<open>404\<close>, the callback gets \<open>err\<close> at once, whatever the retry budget:
  no timer, no second request. If it contains \<^verbatim>\<open>404\<close> and the budget is positive, a timer
  of 500 ms is set and the delete runs again with one retry less; with no budget left the
  callback gets \<open>err\<close>. So with a positive budget a retry happens if and only if the
  message contains \<^verbatim>\<open>404\<close>.
\<close>

theorem retry_only_on_404:
  assumes "engine n = Some err"
  shows "(\<not> sublist ''404'' (message err) \<longrightarrow>
            deleteByMongoId engine n opts doc retry =
              [ClientDelete (opt_index opts) (opt_type opts) (doc_id doc), Callback (Some err)]) \<and>
         (sublist ''404'' (message err) \<and> 0 < retry \<longrightarrow>
            deleteByMongoId engine n opts doc retry =
              [ClientDelete (opt_index opts) (opt_type opts) (doc_id doc), SetTimeout 500] @
              deleteByMongoId engine (Suc n) opts doc (retry - 1)) \<and>
         (sublist ''404'' (message err) \<and> retry \<le> 0 \<longrightarrow>
            deleteByMongoId engine n opts doc retry =
              [ClientDelete (opt_index opts) (opt_type opts) (doc_id doc), Callback (Some err)]) \<and>
         (0 < retry \<longrightarrow>
            (SetTimeout 500 \<in> set (deleteByMongoId engine n opts doc retry)) =
              sublist ''404'' (message err))"
proof -
  have nf: "reports_not_found (engine n) = sublist ''404'' (message err)"
    using assms by (simp add: reports_not_found_def indexOf_sublist)
  show ?thesis
    using assms nf delete_other [of engine n opts doc retry]
      delete_not_found_retry [of engine n retry opts doc]
      delete_not_found_exhausted [of engine n retry opts doc]
    by (auto simp: retry_round_def)
qed

theorem retry_only_on_404_witness:
  "(\<lambda>n. Some unavailable) (0::nat) = Some unavailable \<and>
   \<not> sublist ''404'' (message unavailable) \<and>
   deleteByMongoId (\<lambda>n. Some unavailable) 0 user_options user_doc 3 =
     [ClientDelete (Some ''users'') (Some ''user'') ''5a1b'', Callback (Some unavailable)]"
proof -
  have e: "(\<lambda>n. Some unavailable) (0::nat) = Some unavailable"
    by simp
  have s: "\<not> sublist ''404'' (message unavailable)"
    by (simp add: unavailable_def indexOf_sublist [symmetric] indexOf_def)
  show ?thesis
    using retry_only_on_404 [of "\<lambda>n. Some unavailable" 0 unavailable user_options user_doc 3, OF e] s
    by (simp add: user_options_def user_doc_def)
qed

section \<open>Properties of the controller\<close>

lemmas handler_defs = on_data_def on_close_def onSent_def onError_def finalize_def
  stream_pause_def stream_resume_def do_effect_def finalize_effects_def Let_def


lemma on_data_effects:
  "effects (on_data ext esOpts doc sending s) =
     effects s @ [StreamPause, BulkerPush (index_operation ext esOpts doc), Emit (EsBulkData doc)] @
     (if sending then [] else [StreamResume])"
  by (simp add: handler_defs)

lemma on_data_paused: "paused (on_data ext esOpts doc sending s) = sending"
  by (simp add: handler_defs)

lemma stays_paused:
  "paused s \<Longrightarrow> list_all (\<lambda>e. \<not> is_bulker_event e) evs \<Longrightarrow>
   deliver_all ext esOpts evs s = Some s' \<Longrightarrow>
   paused s' \<and> filter (\<lambda>x. x = StreamResume) (effects s') = filter (\<lambda>x. x = StreamResume) (effects s)"
proof (induction evs arbitrary: s)
  case Nil
  then show ?case by simp
next
  case (Cons e evs)
  then obtain s1 where s1: "deliver ext esOpts e s = Some s1"
    and rest: "deliver_all ext esOpts evs s1 = Some s'"
    by (auto split: option.splits)
  have "paused s1 \<and> filter (\<lambda>x. x = StreamResume) (effects s1) = filter (\<lambda>x. x = StreamResume) (effects s)"
    using s1 Cons.prems(1,2)
    by (cases e) (auto simp: handler_defs split: if_splits)
  then show ?case
    using Cons.IH [of s1] rest Cons.prems(2) by simp
qed

lemma bulker_event_resumes:
  "onSent_listening s \<Longrightarrow> onError_listening s \<Longrightarrow> \<not> streamClosed s \<Longrightarrow> is_bulker_event e \<Longrightarrow>
   \<exists>s'. deliver ext esOpts e s = Some s' \<and> \<not> paused s' \<and> last (effects s') = StreamResume"
  by (cases e) (auto simp: handler_defs)

text \<open>
  Claim C1, as amended. For every record the handler pauses the stream, then pushes the
  record's index operation, then emits \<^verbatim>\<open>es-bulk-data\<close>, and resumes the stream at once
  if and only if \<^verbatim>\<open>push\<close> returned a false value (line 232 tests \<^verbatim>\<open>!sending\<close>): the
  stream is paused after the handler exactly when \<^verbatim>\<open>push\<close> returned true. When it
  returned true, no event other than the Bulker's \<^verbatim>\<open>sent\<close> or \<^verbatim>\<open>error\<close> resumes the
  stream, and that event, while the listeners are on and the stream has not closed,
  resumes it.
\<close>

theorem data_handler_backpressure:
  "effects (on_data ext esOpts doc sending s) =
     effects s @ [StreamPause, BulkerPush (index_operation ext esOpts doc), Emit (EsBulkData doc)] @
     (if sending then [] else [StreamResume]) \<and>
   paused (on_data ext esOpts doc sending s) = sending \<and>
   (list_all (\<lambda>e. \<not> is_bulker_event e) evs \<and>
    deliver_all ext esOpts evs (on_data ext esOpts doc True s) = Some s' \<longrightarrow>
      paused s' \<and>
      filter (\<lambda>x. x = StreamResume) (effects s') = filter (\<lambda>x. x = StreamResume) (effects s)) \<and>
   (list_all (\<lambda>e. \<not> is_bulker_event e) evs \<and>
    deliver_all ext esOpts evs (on_data ext esOpts doc True s) = Some s' \<and>
    onSent_listening s' \<and> onError_listening s' \<and> \<not> streamClosed s' \<and> is_bulker_event e \<longrightarrow>
      (\<exists>s''. deliver ext esOpts e s' = Some s'' \<and> \<not> paused s'' \<and>
         last (effects s'') = StreamResume))"
proof -
  have p: "paused (on_data ext esOpts doc True s)"
    by (simp add: on_data_paused)
  have r: "filter (\<lambda>x. x = StreamResume) (effects (on_data ext esOpts doc True s)) =
      filter (\<lambda>x. x = StreamResume) (effects s)"
    by (simp add: on_data_effects)
  show ?thesis
    using stays_paused [OF p, of evs ext esOpts s'] r
      bulker_event_resumes [of s' e ext esOpts]
    by (simp add: on_data_effects on_data_paused)
qed

text \<open>
  The claim as the spec states it (resume if and only if \<^verbatim>\<open>push\<close> returned true) fails
  both ways: after a \<^verbatim>\<open>push\<close> that returned true the stream is paused and no resume was
  called; after one that returned false the stream was resumed.
\<close>

theorem data_handler_resume_counterexample:
  "paused (on_data sample_ext user_options user_doc True (listening user_options)) \<and>
   effects (on_data sample_ext user_options user_doc True (listening user_options)) =
     [StreamOpen 50, BulkerOn ''error'', BulkerOn ''sent'', StreamPause,
      BulkerPush \<lparr>op_index = Some ''users'', op_type = Some ''user'', op_id = ''5a1b'',
                  op_body = ''john''\<rparr>,
      Emit (EsBulkData user_doc)] \<and>
   \<not> paused (on_data sample_ext user_options user_doc False (listening user_options)) \<and>
   last (effects (on_data sample_ext user_options user_doc False (listening user_options))) =
     StreamResume"
  by (simp add: handler_defs listening_def stream_batch_def index_operation_def
      user_options_def user_doc_def sample_ext_def)

theorem data_handler_backpressure_witness:
  "list_all (\<lambda>e. \<not> is_bulker_event e) [StreamClose True] \<and>
   deliver_all sample_ext user_options [StreamClose True]
     (on_data sample_ext user_options user_doc True (listening user_options)) =
     Some (on_close user_options True
       (on_data sample_ext user_options user_doc True (listening user_options))) \<and>
   paused (on_close user_options True
       (on_data sample_ext user_options user_doc True (listening user_options))) \<and>
   paused (on_data sample_ext user_options user_doc True (listening user_options)) \<and>
   \<not> paused (on_data sample_ext user_options user_doc False (listening user_options))"
proof -
  have a: "list_all (\<lambda>e. \<not> is_bulker_event e) [StreamClose True]"
    by simp
  have b: "deliver_all sample_ext user_options [StreamClose True]
     (on_data sample_ext user_options user_doc True (listening user_options)) =
     Some (on_close user_options True
       (on_data sample_ext user_options user_doc True (listening user_options)))"
    by (simp add: handler_defs listening_def)
  show ?thesis
    using a b
      data_handler_backpressure [of sample_ext user_options user_doc True
        "listening user_options" "[StreamClose True]"
        "on_close user_options True
          (on_data sample_ext user_options user_doc True (listening user_options))"]
      data_handler_backpressure [of sample_ext user_options user_doc False
        "listening user_options" "[]"]
    by simp
qed

lemma deliver_promise:
  "deliver ext esOpts e s = Some s' \<Longrightarrow>
   promise s' = (case e of RefreshDone r \<Rightarrow> defer_callback r (promise s) | _ \<Rightarrow> promise s)"
  by (cases e) (auto simp: handler_defs split: if_splits)

lemma settled_stays:
  "promise s \<noteq> Pending \<Longrightarrow> deliver_all ext esOpts evs s = Some s' \<Longrightarrow> promise s' = promise s"
proof (induction evs arbitrary: s)
  case Nil
  then show ?case by simp
next
  case (Cons e evs)
  then obtain s1 where s1: "deliver ext esOpts e s = Some s1"
    and rest: "deliver_all ext esOpts evs s1 = Some s'"
    by (auto split: option.splits)
  have "promise s1 = promise s"
    using deliver_promise [OF s1] Cons.prems(1)
    by (cases e; cases "promise s") (simp_all add: defer_callback_def)
  then show ?case
    using Cons.IH [of s1] rest Cons.prems(1) by simp
qed

lemma rejected_by_refresh:
  "promise s = Pending \<Longrightarrow> deliver_all ext esOpts evs s = Some s' \<Longrightarrow>
   promise s' = Rejected err \<Longrightarrow> RefreshDone (Some err) \<in> set evs"
proof (induction evs arbitrary: s)
  case Nil
  then show ?case by simp
next
  case (Cons e evs)
  then obtain s1 where s1: "deliver ext esOpts e s = Some s1"
    and rest: "deliver_all ext esOpts evs s1 = Some s'"
    by (auto split: option.splits)
  show ?case
  proof (cases "promise s1 = Pending")
    case True
    then show ?thesis
      using Cons.IH [OF True rest Cons.prems(3)] by simp
  next
    case False
    then have "promise s1 = Rejected err"
      using settled_stays [OF False rest] Cons.prems(3) by simp
    then have "e = RefreshDone (Some err)"
      using deliver_promise [OF s1] Cons.prems(1)
      by (cases e) (auto simp: defer_callback_def split: option.splits)
    then show ?thesis by simp
  qed
qed

lemma onError_effects:
  "effects (onError esOpts err s) =
     effects s @ Emit (EsBulkError err) #
       (if streamClosed s then finalize_effects esOpts else [StreamResume])"
  by (simp add: handler_defs)

text \<open>
  Claim C2. The listener of the Bulker's \<^verbatim>\<open>error\<close> event leaves the outcome of
  \<^verbatim>\<open>synchronize\<close> as it was: it emits \<^verbatim>\<open>es-bulk-error\<close> and then resumes the stream,
  or runs finalize when the stream has closed. Whatever events one call of
  \<^verbatim>\<open>synchronize\<close> receives, its outcome is rejected with an error only if the callback
  of the refresh call got that error.
\<close>

theorem bulk_error_never_rejects:
  "promise (onError esOpts err s) = promise s \<and>
   effects (onError esOpts err s) =
     effects s @ Emit (EsBulkError err) #
       (if streamClosed s then finalize_effects esOpts else [StreamResume]) \<and>
   paused (onError esOpts err s) = (if streamClosed s then paused s else False) \<and>
   (deliver ext esOpts (BulkerError err) s = Some s1 \<longrightarrow> promise s1 = promise s) \<and>
   (deliver_all ext esOpts evs (listening esOpts) = Some s2 \<and> promise s2 = Rejected e \<longrightarrow>
      RefreshDone (Some e) \<in> set evs)"
proof -
  have "promise (listening esOpts) = Pending"
    by (simp add: listening_def)
  then show ?thesis
    using rejected_by_refresh [of "listening esOpts" ext esOpts evs s2 e]
      deliver_promise [of ext esOpts "BulkerError err" s s1]
    by (simp add: handler_defs)
qed

theorem bulk_error_never_rejects_witness:
  "deliver_all sample_ext user_options
     [StreamData user_doc True, BulkerError refused, StreamClose False, RefreshDone (Some refused)]
     (listening user_options) =
   Some \<lparr>paused = False, streamClosed = True, onError_listening = False,
         onSent_listening = False, refreshing = 0, promise = Rejected refused,
         effects = [StreamOpen 50, BulkerOn ''error'', BulkerOn ''sent'', StreamPause,
           BulkerPush (index_operation sample_ext user_options user_doc),
           Emit (EsBulkData user_doc), Emit (EsBulkError refused), StreamResume,
           BulkerRemoveListener ''error'', BulkerRemoveListener ''sent'',
           IndicesRefresh (Some ''users'')]\<rparr> \<and>
   RefreshDone (Some refused) \<in>
     set [StreamData user_doc True, BulkerError refused, StreamClose False,
          RefreshDone (Some refused)] \<and>
   promise (onError user_options refused (listening user_options)) = Pending"
proof -
  have run: "deliver_all sample_ext user_options
     [StreamData user_doc True, BulkerError refused, StreamClose False, RefreshDone (Some refused)]
     (listening user_options) =
   Some \<lparr>paused = False, streamClosed = True, onError_listening = False,
         onSent_listening = False, refreshing = 0, promise = Rejected refused,
         effects = [StreamOpen 50, BulkerOn ''error'', BulkerOn ''sent'', StreamPause,
           BulkerPush (index_operation sample_ext user_options user_doc),
           Emit (EsBulkData user_doc), Emit (EsBulkError refused), StreamResume,
           BulkerRemoveListener ''error'', BulkerRemoveListener ''sent'',
           IndicesRefresh (Some ''users'')]\<rparr>"
    by (simp add: handler_defs listening_def defer_callback_def stream_batch_def
        user_options_def)
  show ?thesis
    using run
      bulk_error_never_rejects [of user_options refused "listening user_options"
        sample_ext _ "[StreamData user_doc True, BulkerError refused, StreamClose False,
          RefreshDone (Some refused)]" _ refused]
    by (simp add: listening_def)
qed

lemma once_listening: "once (listening esOpts)"
  by (simp add: once_def listening_def attached_def refreshes_def)

lemma once_deliver:
  "once s \<Longrightarrow> deliver ext esOpts e s = Some s' \<Longrightarrow> once s'"
  by (cases e)
     (auto simp: once_def attached_def detached_def refreshes_def handler_defs split: if_splits)

lemma once_deliver_all:
  "once s \<Longrightarrow> deliver_all ext esOpts evs s = Some s' \<Longrightarrow> once s'"
proof (induction evs arbitrary: s)
  case Nil
  then show ?case by simp
next
  case (Cons e evs)
  then obtain s1 where s1: "deliver ext esOpts e s = Some s1"
    and rest: "deliver_all ext esOpts evs s1 = Some s'"
    by (auto split: option.splits)
  show ?case
    using Cons.IH [OF once_deliver [OF Cons.prems(1) s1] rest] .
qed

lemma detached_deliver:
  "detached s \<Longrightarrow> streamClosed s \<Longrightarrow> deliver ext esOpts e s = Some s' \<Longrightarrow>
   detached s' \<and> streamClosed s' \<and> effects s' = effects s"
  by (cases e) (auto simp: detached_def split: if_splits)

lemma detached_deliver_all:
  "detached s \<Longrightarrow> streamClosed s \<Longrightarrow> deliver_all ext esOpts evs s = Some s' \<Longrightarrow>
   effects s' = effects s"
proof (induction evs arbitrary: s)
  case Nil
  then show ?case by simp
next
  case (Cons e evs)
  then obtain s1 where s1: "deliver ext esOpts e s = Some s1"
    and rest: "deliver_all ext esOpts evs s1 = Some s'"
    by (auto split: option.splits)
  show ?case
    using Cons.IH [of s1] detached_deliver [OF Cons.prems(1,2) s1] rest by simp
qed

lemma deliver_all_append:
  "deliver_all ext esOpts (xs @ ys) s =
     (case deliver_all ext esOpts xs s of None \<Rightarrow> None | Some s1 \<Rightarrow> deliver_all ext esOpts ys s1)"
  by (induction xs arbitrary: s) (auto split: option.splits)

text \<open>After the close with a flush, nothing but a Bulker event adds an effect.\<close>

lemma waiting_for_flush:
  "streamClosed s \<Longrightarrow> list_all (\<lambda>e. \<not> is_bulker_event e) evs \<Longrightarrow>
   deliver_all ext esOpts evs s = Some s' \<Longrightarrow>
   streamClosed s' \<and> effects s' = effects s \<and> onError_listening s' = onError_listening s \<and>
   onSent_listening s' = onSent_listening s"
proof (induction evs arbitrary: s)
  case Nil
  then show ?case by simp
next
  case (Cons e evs)
  then obtain s1 where s1: "deliver ext esOpts e s = Some s1"
    and rest: "deliver_all ext esOpts evs s1 = Some s'"
    by (auto split: option.splits)
  have "streamClosed s1 \<and> effects s1 = effects s \<and> onError_listening s1 = onError_listening s \<and>
   onSent_listening s1 = onSent_listening s"
    using s1 Cons.prems(1,2) by (cases e) (auto split: if_splits)
  then show ?case
    using Cons.IH [of s1] rest Cons.prems(2) by simp
qed

lemma flush_then_finalize:
  assumes att: "attached s" and nb: "list_all (\<lambda>e. \<not> is_bulker_event e) mid"
    and b: "is_bulker_event e"
    and run: "deliver_all ext esOpts (mid @ [e]) (on_close esOpts True s) = Some s'"
  shows "effects s' = effects s @ [BulkerFlush] @ notice e @ finalize_effects esOpts \<and> detached s'"
proof -
  obtain s1 where s1: "deliver_all ext esOpts mid (on_close esOpts True s) = Some s1"
    and last: "deliver ext esOpts e s1 = Some s'"
    using run by (auto simp: deliver_all_append split: option.splits)
  have c: "streamClosed (on_close esOpts True s)"
    by (simp add: handler_defs)
  have w: "streamClosed s1 \<and> effects s1 = effects s @ [BulkerFlush] \<and>
      onError_listening s1 \<and> onSent_listening s1"
    using waiting_for_flush [OF c nb s1] att by (simp add: handler_defs attached_def)
  show ?thesis
    using last w b by (cases e) (auto simp: handler_defs detached_def)
qed

lemma before_close:
  "once s \<Longrightarrow> \<not> streamClosed s \<Longrightarrow> attached s \<and> length (filter is_refresh (effects s)) = 0"
  by (simp add: once_def refreshes_def)

lemma close_without_flush_once:
  assumes "deliver_all ext esOpts (pre @ StreamClose False # post) (listening esOpts) = Some s'"
  shows "length (filter is_refresh (effects s')) = 1"
proof -
  obtain s1 s2 where s1: "deliver_all ext esOpts pre (listening esOpts) = Some s1"
    and s2: "deliver ext esOpts (StreamClose False) s1 = Some s2"
    and rest: "deliver_all ext esOpts post s2 = Some s'"
    using assms by (auto simp: deliver_all_append split: option.splits)
  have o: "once s1"
    using once_deliver_all [OF once_listening s1] .
  have nc: "\<not> streamClosed s1" and eq: "s2 = on_close esOpts False s1"
    using s2 by (auto split: if_splits)
  have "detached s2 \<and> streamClosed s2 \<and> length (filter is_refresh (effects s2)) = 1"
    using before_close [OF o nc] eq by (simp add: handler_defs detached_def attached_def)
  then show ?thesis
    using detached_deliver_all [of s2 ext esOpts post s'] rest by simp
qed

lemma close_with_flush_once:
  assumes "deliver_all ext esOpts (pre @ StreamClose True # post) (listening esOpts) = Some s'"
  shows "length (filter is_refresh (effects s')) = (if list_ex is_bulker_event post then 1 else 0)"
proof -
  obtain s1 s2 where s1: "deliver_all ext esOpts pre (listening esOpts) = Some s1"
    and s2: "deliver ext esOpts (StreamClose True) s1 = Some s2"
    and rest: "deliver_all ext esOpts post s2 = Some s'"
    using assms by (auto simp: deliver_all_append split: option.splits)
  have o: "once s1"
    using once_deliver_all [OF once_listening s1] .
  have nc: "\<not> streamClosed s1" and eq: "s2 = on_close esOpts True s1"
    using s2 by (auto split: if_splits)
  have b: "attached s1" "length (filter is_refresh (effects s1)) = 0"
    using before_close [OF o nc] by simp_all
  have c: "streamClosed s2" and e2: "effects s2 = effects s1 @ [BulkerFlush]"
    using eq by (simp_all add: handler_defs)
  show ?thesis
  proof (cases "list_ex is_bulker_event post")
    case True
    then obtain mid e after where split: "post = mid @ e # after" and e: "is_bulker_event e"
      and mid: "\<forall>x\<in>set mid. \<not> is_bulker_event x"
      using split_list_first_prop [of post is_bulker_event] by (auto simp: list_ex_iff)
    obtain s3 where s3: "deliver_all ext esOpts (mid @ [e]) (on_close esOpts True s1) = Some s3"
      and s4: "deliver_all ext esOpts after s3 = Some s'"
      using rest split eq deliver_all_append [of ext esOpts "mid @ [e]" after s2]
      by (auto split: option.splits)
    have nb: "list_all (\<lambda>e. \<not> is_bulker_event e) mid"
      using mid by (simp add: list_all_iff)
    have f: "effects s3 = effects s1 @ [BulkerFlush] @ notice e @ finalize_effects esOpts"
      and d: "detached s3"
      using flush_then_finalize [OF b(1) nb e s3] by simp_all
    have "deliver_all ext esOpts (pre @ StreamClose True # mid @ [e]) (listening esOpts) = Some s3"
      using s1 s2 s3 eq by (simp add: deliver_all_append)
    then have o3: "once s3"
      using once_deliver_all [OF once_listening] by blast
    have c3: "streamClosed s3"
      using o3 d by (auto simp: once_def detached_def attached_def split: if_splits)
    have "effects s' = effects s3"
      using detached_deliver_all [OF d c3 s4] .
    moreover have "length (filter is_refresh (notice e)) = 0"
      by (cases e) simp_all
    ultimately show ?thesis
      using True f b(2) by (simp add: finalize_effects_def)
  next
    case False
    then have nb: "list_all (\<lambda>e. \<not> is_bulker_event e) post"
      by (simp add: list_all_iff list_ex_iff)
    have "effects s' = effects s2"
      using waiting_for_flush [OF c nb rest] by simp
    then show ?thesis
      using False e2 b(2) by simp
  qed
qed

text \<open>
  Claim C3. When the stream closes and \<^verbatim>\<open>filled()\<close> is true, the handler calls
  \<^verbatim>\<open>flush()\<close> and nothing else; no effect follows until the Bulker's next \<^verbatim>\<open>sent\<close> or
  \<^verbatim>\<open>error\<close> event, whose listener emits its notification and runs finalize. When
  \<^verbatim>\<open>filled()\<close> is false the handler runs finalize at once. Finalize removes both
  listeners and makes the refresh call. Over one call of \<^verbatim>\<open>synchronize\<close> the number
  of refresh calls is 0 while the listeners are on and 1 afterwards: exactly 1 after a
  close without flush, and after a close with flush exactly 1 once a \<^verbatim>\<open>sent\<close> or
  \<^verbatim>\<open>error\<close> event has come.
\<close>

theorem close_finalizes_once:
  "effects (on_close esOpts True s) = effects s @ [BulkerFlush] \<and>
   effects (on_close esOpts False s) = effects s @ finalize_effects esOpts \<and>
   streamClosed (on_close esOpts flag s) \<and>
   (onError_listening s \<and> onSent_listening s \<and> list_all (\<lambda>e. \<not> is_bulker_event e) mid \<and>
    deliver_all ext esOpts mid (on_close esOpts True s) = Some s1 \<longrightarrow>
      effects s1 = effects s @ [BulkerFlush]) \<and>
   (onError_listening s \<and> onSent_listening s \<and> list_all (\<lambda>e. \<not> is_bulker_event e) mid \<and>
    is_bulker_event e \<and>
    deliver_all ext esOpts (mid @ [e]) (on_close esOpts True s) = Some s2 \<longrightarrow>
      effects s2 = effects s @ [BulkerFlush] @ notice e @ finalize_effects esOpts \<and>
      \<not> onError_listening s2 \<and> \<not> onSent_listening s2) \<and>
   (deliver_all ext esOpts evs (listening esOpts) = Some s3 \<longrightarrow>
      length (filter is_refresh (effects s3)) = (if onSent_listening s3 then 0 else 1)) \<and>
   (deliver_all ext esOpts (pre @ StreamClose False # post) (listening esOpts) = Some s4 \<longrightarrow>
      length (filter is_refresh (effects s4)) = 1) \<and>
   (deliver_all ext esOpts (pre @ StreamClose True # post) (listening esOpts) = Some s5 \<longrightarrow>
      length (filter is_refresh (effects s5)) = (if list_ex is_bulker_event post then 1 else 0))"
proof -
  have c: "streamClosed (on_close esOpts True s)"
    by (simp add: handler_defs)
  have w: "list_all (\<lambda>e. \<not> is_bulker_event e) mid \<Longrightarrow>
      deliver_all ext esOpts mid (on_close esOpts True s) = Some s1 \<Longrightarrow>
      effects s1 = effects s @ [BulkerFlush]"
    using waiting_for_flush [OF c, of mid ext esOpts s1] by (simp add: handler_defs)
  have f: "onError_listening s \<Longrightarrow> onSent_listening s \<Longrightarrow>
      list_all (\<lambda>e. \<not> is_bulker_event e) mid \<Longrightarrow> is_bulker_event e \<Longrightarrow>
      deliver_all ext esOpts (mid @ [e]) (on_close esOpts True s) = Some s2 \<Longrightarrow>
      effects s2 = effects s @ [BulkerFlush] @ notice e @ finalize_effects esOpts \<and>
      \<not> onError_listening s2 \<and> \<not> onSent_listening s2"
    using flush_then_finalize [of s mid e ext esOpts s2]
    by (simp add: attached_def detached_def)
  have o: "deliver_all ext esOpts evs (listening esOpts) = Some s3 \<Longrightarrow>
      length (filter is_refresh (effects s3)) = (if onSent_listening s3 then 0 else 1)"
    using once_deliver_all [OF once_listening]
    by (fastforce simp: once_def attached_def detached_def refreshes_def split: if_splits)
  have h: "effects (on_close esOpts True s) = effects s @ [BulkerFlush] \<and>
   effects (on_close esOpts False s) = effects s @ finalize_effects esOpts \<and>
   streamClosed (on_close esOpts flag s)"
    by (simp add: handler_defs)
  show ?thesis
    using h w f o close_without_flush_once [of ext esOpts pre post s4]
      close_with_flush_once [of ext esOpts pre post s5]
    by blast
qed


theorem close_finalizes_once_witness:
  "deliver_all sample_ext user_options
     ([StreamData user_doc False] @ StreamClose True # [BulkerSent 1, RefreshDone None])
     (listening user_options) =
   Some \<lparr>paused = False, streamClosed = True, onError_listening = False,
         onSent_listening = False, refreshing = 0, promise = Resolved,
         effects = [StreamOpen 50, BulkerOn ''error'', BulkerOn ''sent'', StreamPause,
           BulkerPush (index_operation sample_ext user_options user_doc),
           Emit (EsBulkData user_doc), StreamResume, BulkerFlush, Emit (EsBulkSent 1),
           BulkerRemoveListener ''error'', BulkerRemoveListener ''sent'',
           IndicesRefresh (Some ''users'')]\<rparr> \<and>
   list_ex is_bulker_event [BulkerSent 1, RefreshDone None] \<and>
   length (filter is_refresh
     [StreamOpen 50, BulkerOn ''error'', BulkerOn ''sent'', StreamPause,
      BulkerPush (index_operation sample_ext user_options user_doc),
      Emit (EsBulkData user_doc), StreamResume, BulkerFlush, Emit (EsBulkSent 1),
      BulkerRemoveListener ''error'', BulkerRemoveListener ''sent'',
      IndicesRefresh (Some ''users'')]) = 1"
proof -
  have run: "deliver_all sample_ext user_options
     ([StreamData user_doc False] @ StreamClose True # [BulkerSent 1, RefreshDone None])
     (listening user_options) =
   Some \<lparr>paused = False, streamClosed = True, onError_listening = False,
         onSent_listening = False, refreshing = 0, promise = Resolved,
         effects = [StreamOpen 50, BulkerOn ''error'', BulkerOn ''sent'', StreamPause,
           BulkerPush (index_operation sample_ext user_options user_doc),
           Emit (EsBulkData user_doc), StreamResume, BulkerFlush, Emit (EsBulkSent 1),
           BulkerRemoveListener ''error'', BulkerRemoveListener ''sent'',
           IndicesRefresh (Some ''users'')]\<rparr>"
    by (simp add: handler_defs listening_def defer_callback_def stream_batch_def
        user_options_def)
  show ?thesis
    using close_finalizes_once [where esOpts = user_options and ext = sample_ext
        and pre = "[StreamData user_doc False]" and post = "[BulkerSent 1, RefreshDone None]"]
      run
    by simp
qed

section \<open>Properties of a whole run\<close>










lemma run_step: "step w \<sigma> = Some \<sigma>1 \<Longrightarrow> run w (Suc k) \<sigma> = run w k \<sigma>1"
  by simp













section \<open>Properties of esOptions and of the hooks\<close>

lemmas esOptions_defs = esOptions_def default_index_def default_type_def default_client_def
  make_bulker_def new_Bulker_def default_mapping_def highClone_def falsy_def

text \<open>
  Claim C6 does not hold of the code. With bulk options set, two calls of
  \<^verbatim>\<open>esOptions\<close> in a row return two different Bulkers (the first and the second object
  built), although they return the same client and the same mapping, which lines 24 and
  32 build only when the options have none. Two calls of \<^verbatim>\<open>synchronize\<close> so use two
  different Bulkers.
\<close>

theorem esOptions_new_bulker_each_call:
  "(case esOptions sample_ext user_model \<lparr>options = bulk_configured, allocated = 0\<rparr> of
      Inl e \<Rightarrow> False
    | Inr (o1, st1) \<Rightarrow>
        (case esOptions sample_ext user_model st1 of
           Inl e \<Rightarrow> False
         | Inr (o2, st2) \<Rightarrow>
             opt_bulker o1 = Some (Bulker 0 (Some 7) (Some \<lparr>batch = Some 10\<rparr>)) \<and>
             opt_bulker o2 = Some (Bulker 1 (Some 7) (Some \<lparr>batch = Some 10\<rparr>)) \<and>
             opt_bulker o1 \<noteq> opt_bulker o2 \<and>
             opt_client o1 = opt_client o2 \<and> opt_mapping o1 = opt_mapping o2)) \<and>
   (case synchronize sample_ext user_model \<lparr>options = bulk_configured, allocated = 0\<rparr> of
      Inl e \<Rightarrow> False
    | Inr (c1, st1) \<Rightarrow>
        (case synchronize sample_ext user_model st1 of
           Inl e \<Rightarrow> False
         | Inr (c2, st2) \<Rightarrow>
             ref (call_bulker c1) = 0 \<and> ref (call_bulker c2) = 1))"
  by (simp add: esOptions_defs synchronize_def sample_ext_def user_model_def
      bulk_configured_def no_options_def)

text \<open>
  Claim C8 does not hold of the code. A plugin installed without options, whose first use
  is the hook of a saved or removed document: \<^verbatim>\<open>postSave\<close> and \<^verbatim>\<open>postRemove\<close> throw a
  TypeError, whatever the document and the functions of \<^verbatim>\<open>lib\<close>. No request is sent and
  no notification is emitted. (\<^verbatim>\<open>esOptions\<close> is called on \<^verbatim>\<open>schema.statics\<close>, which has
  no collection.)
\<close>

theorem post_hooks_throw_without_index:
  "postSave ext (Some doc) \<lparr>options = no_options, allocated = n\<rparr> = Inl TypeError \<and>
   postRemove ext engine (Some doc) \<lparr>options = no_options, allocated = n\<rparr> = Inl TypeError \<and>
   postSave sample_ext (Some user_doc) \<lparr>options = no_options, allocated = 0\<rparr> = Inl TypeError"
  by (simp add: postSave_def postRemove_def indexDoc_def removeDoc_def esOptions_defs
      statics_def no_options_def)

text \<open>
  Once the options hold an index, a type and a mapping (by the plugin's options or by an
  earlier call of \<^verbatim>\<open>esOptions\<close> on the model), \<^verbatim>\<open>esOptions\<close> returns on any receiver and
  the hook sends its request.
\<close>

lemma esOptions_filled:
  "\<not> falsy (opt_index opts) \<Longrightarrow> \<not> falsy (opt_type opts) \<Longrightarrow> opt_mapping opts = Some m \<Longrightarrow>
   \<exists>esOpts st'. esOptions ext this \<lparr>options = opts, allocated = n\<rparr> = Inr (esOpts, st') \<and>
     opt_index esOpts = opt_index opts \<and> opt_type esOpts = opt_type opts \<and>
     opt_mapping esOpts = Some m"
  by (simp add: esOptions_defs split: option.splits)

lemma post_hooks_filled:
  "\<not> falsy (opt_index opts) \<Longrightarrow> \<not> falsy (opt_type opts) \<Longrightarrow> opt_mapping opts = Some m \<Longrightarrow>
   \<exists>st'. postSave ext (Some doc) \<lparr>options = opts, allocated = n\<rparr> =
     Inr ([ClientIndex (opt_index opts) (opt_type opts) (doc_id doc) (serialize ext doc (Some m))], st')"
  using esOptions_filled [of opts m ext statics n]
  by (auto simp: postSave_def indexDoc_def)

text \<open>
  Claim C9, as amended. Whenever \<^verbatim>\<open>esOptions\<close> returns, \<^verbatim>\<open>synchronize\<close> returns too, and
  the first thing it has done is to open the stream, with a read batch size that is the
  \<^verbatim>\<open>batch\<close> of the bulk options when they are set and their \<^verbatim>\<open>batch\<close> is set and is not 0,
  and 50 when the bulk options are not set, or their \<^verbatim>\<open>batch\<close> is not set or is 0. When
  the options hold no Bulker, the Bulker that \<^verbatim>\<open>synchronize\<close> builds has no options, and
  the bound of its queue is the same 50. \<^verbatim>\<open>synchronize\<close> throws only what
  \<^verbatim>\<open>esOptions\<close> throws.
\<close>

theorem stream_read_batch_size:
  "(opt_bulk esOpts = Some b \<and> batch b = Some n \<and> n \<noteq> 0 \<longrightarrow> stream_batch esOpts = n) \<and>
   (opt_bulk esOpts = Some b \<and> batch b = Some 0 \<longrightarrow> stream_batch esOpts = 50) \<and>
   (opt_bulk esOpts = Some b \<and> batch b = None \<longrightarrow> stream_batch esOpts = 50) \<and>
   (opt_bulk esOpts = None \<longrightarrow> stream_batch esOpts = 50) \<and>
   (esOptions ext this st = Inr (esOpts, st1) \<longrightarrow>
      (\<exists>c st'. synchronize ext this st = Inr (c, st') \<and> call_options c = esOpts \<and>
         effects (call_state c) =
           [StreamOpen (stream_batch esOpts), BulkerOn ''error'', BulkerOn ''sent''] \<and>
         \<not> paused (call_state c) \<and>
         (opt_bulker esOpts = None \<longrightarrow>
            call_bulker c = Bulker (allocated st1) (opt_client esOpts) None \<and>
            bound (queue_of (call_bulker c)) = 50))) \<and>
   (esOptions ext this st = Inl e \<longrightarrow> synchronize ext this st = Inl e)"
  by (auto simp: stream_batch_def synchronize_def listening_def new_queue_def queue_of_def
      new_Bulker_def split: option.splits)

text \<open>
  The claim as the spec states it fails for bulk options whose \<^verbatim>\<open>batch\<close> is set to 0:
  \<^verbatim>\<open>synchronize\<close> returns with these options and has opened the stream with a read
  batch size of 50, not of 0.
\<close>

theorem stream_batch_zero_counterexample:
  "(case synchronize sample_ext user_model \<lparr>options = zero_batch, allocated = 0\<rparr> of
      Inl e \<Rightarrow> False
    | Inr (c, st') \<Rightarrow>
        opt_bulk (call_options c) = Some \<lparr>batch = Some 0\<rparr> \<and>
        hd (effects (call_state c)) = StreamOpen 50 \<and>
        StreamOpen 0 \<notin> set (effects (call_state c)))"
  by (simp add: synchronize_def esOptions_defs listening_def stream_batch_def sample_ext_def
      user_model_def zero_batch_def no_options_def)

theorem stream_read_batch_size_witness:
  "esOptions sample_ext user_model \<lparr>options = bulk_configured, allocated = 0\<rparr> =
     Inr (\<lparr>opt_index = Some ''users'', opt_type = Some ''User'', opt_client = Some 7,
            opt_bulk = Some \<lparr>batch = Some 10\<rparr>,
            opt_bulker = Some (Bulker 0 (Some 7) (Some \<lparr>batch = Some 10\<rparr>)),
            opt_mapping = Some (Mapping ''name'')\<rparr>,
          \<lparr>options = \<lparr>opt_index = Some ''users'', opt_type = Some ''User'', opt_client = Some 7,
                       opt_bulk = Some \<lparr>batch = Some 10\<rparr>,
                       opt_bulker = Some (Bulker 0 (Some 7) (Some \<lparr>batch = Some 10\<rparr>)),
                       opt_mapping = Some (Mapping ''name'')\<rparr>,
            allocated = 1\<rparr>) \<and>
   (\<exists>c st'. synchronize sample_ext user_model \<lparr>options = bulk_configured, allocated = 0\<rparr> =
        Inr (c, st') \<and>
      effects (call_state c) = [StreamOpen 10, BulkerOn ''error'', BulkerOn ''sent'']) \<and>
   esOptions sample_ext user_model \<lparr>options = no_options, allocated = 0\<rparr> =
     Inr (\<lparr>opt_index = Some ''users'', opt_type = Some ''User'', opt_client = Some 7,
            opt_bulk = None, opt_bulker = None, opt_mapping = Some (Mapping ''name'')\<rparr>,
          \<lparr>options = \<lparr>opt_index = Some ''users'', opt_type = Some ''User'', opt_client = Some 7,
                       opt_bulk = None, opt_bulker = None,
                       opt_mapping = Some (Mapping ''name'')\<rparr>,
            allocated = 0\<rparr>) \<and>
   (\<exists>c st'. synchronize sample_ext user_model \<lparr>options = no_options, allocated = 0\<rparr> =
        Inr (c, st') \<and>
      effects (call_state c) = [StreamOpen 50, BulkerOn ''error'', BulkerOn ''sent''] \<and>
      call_bulker c = Bulker 0 (Some 7) None \<and> bound (queue_of (call_bulker c)) = 50)"
proof -
  let ?o10 = "\<lparr>opt_index = Some ''users'', opt_type = Some ''User'', opt_client = Some 7,
            opt_bulk = Some \<lparr>batch = Some 10\<rparr>,
            opt_bulker = Some (Bulker 0 (Some 7) (Some \<lparr>batch = Some 10\<rparr>)),
            opt_mapping = Some (Mapping ''name'')\<rparr>"
  let ?o50 = "\<lparr>opt_index = Some ''users'', opt_type = Some ''User'', opt_client = Some 7,
            opt_bulk = None, opt_bulker = None, opt_mapping = Some (Mapping ''name'')\<rparr>"
  have e10: "esOptions sample_ext user_model \<lparr>options = bulk_configured, allocated = 0\<rparr> =
     Inr (?o10, \<lparr>options = ?o10, allocated = 1\<rparr>)"
    by (simp add: esOptions_defs sample_ext_def user_model_def bulk_configured_def
        no_options_def)
  have e50: "esOptions sample_ext user_model \<lparr>options = no_options, allocated = 0\<rparr> =
     Inr (?o50, \<lparr>options = ?o50, allocated = 0\<rparr>)"
    by (simp add: esOptions_defs sample_ext_def user_model_def no_options_def)
  have b10: "stream_batch ?o10 = 10"
    using stream_read_batch_size [of ?o10 "\<lparr>batch = Some 10\<rparr>" 10] by simp
  have b50: "stream_batch ?o50 = 50"
    using stream_read_batch_size [of ?o50] by simp
  have "esOptions sample_ext user_model \<lparr>options = bulk_configured, allocated = 0\<rparr> =
      Inr (?o10, \<lparr>options = ?o10, allocated = 1\<rparr>) \<longrightarrow>
    (\<exists>c st'. synchronize sample_ext user_model \<lparr>options = bulk_configured, allocated = 0\<rparr> =
        Inr (c, st') \<and> call_options c = ?o10 \<and>
      effects (call_state c) =
        [StreamOpen (stream_batch ?o10), BulkerOn ''error'', BulkerOn ''sent''] \<and>
      \<not> paused (call_state c) \<and>
      (opt_bulker ?o10 = None \<longrightarrow>
         call_bulker c = Bulker (allocated \<lparr>options = ?o10, allocated = 1\<rparr>) (opt_client ?o10) None \<and>
         bound (queue_of (call_bulker c)) = 50))"
    using stream_read_batch_size [where esOpts = ?o10 and ext = sample_ext and this = user_model
        and st = "\<lparr>options = bulk_configured, allocated = 0\<rparr>"
        and ?st1.0 = "\<lparr>options = ?o10, allocated = 1\<rparr>"]
    by blast
  then obtain c10 s10 where s10:
    "synchronize sample_ext user_model \<lparr>options = bulk_configured, allocated = 0\<rparr> =
       Inr (c10, s10)"
    "effects (call_state c10) = [StreamOpen (stream_batch ?o10), BulkerOn ''error'', BulkerOn ''sent'']"
    using e10 by blast
  have "esOptions sample_ext user_model \<lparr>options = no_options, allocated = 0\<rparr> =
      Inr (?o50, \<lparr>options = ?o50, allocated = 0\<rparr>) \<longrightarrow>
    (\<exists>c st'. synchronize sample_ext user_model \<lparr>options = no_options, allocated = 0\<rparr> =
        Inr (c, st') \<and> call_options c = ?o50 \<and>
      effects (call_state c) =
        [StreamOpen (stream_batch ?o50), BulkerOn ''error'', BulkerOn ''sent''] \<and>
      \<not> paused (call_state c) \<and>
      (opt_bulker ?o50 = None \<longrightarrow>
         call_bulker c = Bulker (allocated \<lparr>options = ?o50, allocated = 0\<rparr>) (opt_client ?o50) None \<and>
         bound (queue_of (call_bulker c)) = 50))"
    using stream_read_batch_size [where esOpts = ?o50 and ext = sample_ext and this = user_model
        and st = "\<lparr>options = no_options, allocated = 0\<rparr>"
        and ?st1.0 = "\<lparr>options = ?o50, allocated = 0\<rparr>"]
    by blast
  then have "\<exists>c st'. synchronize sample_ext user_model \<lparr>options = no_options, allocated = 0\<rparr> =
        Inr (c, st') \<and> call_options c = ?o50 \<and>
      effects (call_state c) =
        [StreamOpen (stream_batch ?o50), BulkerOn ''error'', BulkerOn ''sent''] \<and>
      \<not> paused (call_state c) \<and>
      (opt_bulker ?o50 = None \<longrightarrow>
         call_bulker c = Bulker (allocated \<lparr>options = ?o50, allocated = 0\<rparr>) (opt_client ?o50) None \<and>
         bound (queue_of (call_bulker c)) = 50)"
    using e50 by (rule mp)
  then obtain c50 s50 where s50:
    "synchronize sample_ext user_model \<lparr>options = no_options, allocated = 0\<rparr> =
       Inr (c50, s50)"
    "effects (call_state c50) = [StreamOpen (stream_batch ?o50), BulkerOn ''error'', BulkerOn ''sent'']"
    "opt_bulker ?o50 = None \<longrightarrow>
       call_bulker c50 = Bulker (allocated \<lparr>options = ?o50, allocated = 0\<rparr>) (opt_client ?o50) None \<and>
       bound (queue_of (call_bulker c50)) = 50"
    by (elim exE conjE) (rule that)
  have k50: "call_bulker c50 = Bulker 0 (Some 7) None \<and> bound (queue_of (call_bulker c50)) = 50"
    using s50(3) by (simp add: queue_of_def new_queue_def)
  have a: "\<exists>c st'. synchronize sample_ext user_model \<lparr>options = bulk_configured, allocated = 0\<rparr> =
        Inr (c, st') \<and>
      effects (call_state c) = [StreamOpen 10, BulkerOn ''error'', BulkerOn ''sent'']"
    using s10 b10 by auto
  have b: "\<exists>c st'. synchronize sample_ext user_model \<lparr>options = no_options, allocated = 0\<rparr> =
        Inr (c, st') \<and>
      effects (call_state c) = [StreamOpen 50, BulkerOn ''error'', BulkerOn ''sent''] \<and>
      call_bulker c = Bulker 0 (Some 7) None \<and> bound (queue_of (call_bulker c)) = 50"
    using s50(1,2) b50 k50 by auto
  show ?thesis
    using e10 e50 a b by blast
qed

end
